theory Spec2Isabelle
  imports Main "HOL-Library.Sublist" "HOL-Library.AList"
begin

section \<open>Strings, paths and the file system\<close>

text \<open>
  Strings are \<open>char list\<close>; a \<open>char\<close> stands for a code point below 256.
  Terminal output (the \<open>print\<close> calls of the source) is not part of the model.
\<close>

type_synonym path = string

definition DQ :: char where "DQ = CHR 0x22"
definition SQ :: char where "SQ = CHR 0x27"
definition LF :: char where "LF = CHR 0x0A"
definition CR :: char where "CR = CHR 0x0D"

text \<open>\<open>str(i)\<close> of a non-negative integer, as an f-string renders \<open>{i}\<close>.\<close>

definition digit_char :: "nat \<Rightarrow> char" where
  "digit_char d = ''0123456789'' ! d"

fun str_nat :: "nat \<Rightarrow> string" where
  "str_nat n = (if n < 10 then [digit_char n] else str_nat (n div 10) @ [digit_char (n mod 10)])"

declare str_nat.simps [simp del]

text \<open>\<open>posixpath.join(a, b)\<close>.\<close>

definition path_join :: "path \<Rightarrow> path \<Rightarrow> path" where
  "path_join a b =
     (if b \<noteq> [] \<and> hd b = CHR ''/'' then b
      else if a = [] \<or> last a = CHR ''/'' then a @ b
      else a @ ''/'' @ b)"

text \<open>
  The file system is a flat map from path strings to nodes; two different strings are
  two different files.
\<close>

datatype node = Dir | File string

type_synonym filesys = "path \<rightharpoonup> node"

definition path_exists :: "filesys \<Rightarrow> path \<Rightarrow> bool" where
  "path_exists fs p = (fs p \<noteq> None)"

definition path_isdir :: "filesys \<Rightarrow> path \<Rightarrow> bool" where
  "path_isdir fs p = (fs p = Some Dir)"

definition path_isfile :: "filesys \<Rightarrow> path \<Rightarrow> bool" where
  "path_isfile fs p = (case fs p of Some (File c) \<Rightarrow> True | _ \<Rightarrow> False)"

section \<open>Session\<close>

text \<open>
  \<open>class Session\<close>. \<open>config\<close> is a Python dict: an association list in insertion
  order, written with \<open>AList.update\<close>. \<open>SAVE_ROOT\<close> is a parameter of the constructor.
\<close>

record session =
  name :: string
  dir :: path
  config_file :: path
  vars_file :: path
  shared_dir :: path
  iso_dir :: path
  disk_dir :: path
  config :: "(string \<times> string) list"
  disks :: "string list"
  isos :: "string list"
  transient_mounts :: "path list"

definition Session_init :: "path \<Rightarrow> string \<Rightarrow> session" where
  "Session_init save_root nm =
     (let d = path_join save_root nm in
      \<lparr> name = nm, dir = d,
        config_file = path_join d ''config.conf'',
        vars_file = path_join d ''OVMF_VARS.fd'',
        shared_dir = path_join d ''shared'',
        iso_dir = path_join d ''isos'',
        disk_dir = path_join d ''disks'',
        config = [], disks = [], isos = [], transient_mounts = [] \<rparr>)"

text \<open>\<open>dict.get(key, default)\<close>.\<close>

definition dict_get :: "(string \<times> string) list \<Rightarrow> string \<Rightarrow> string \<Rightarrow> string" where
  "dict_get d k dflt = (case map_of d k of Some v \<Rightarrow> v | None \<Rightarrow> dflt)"

section \<open>QEMURunner.build_command\<close>

definition preamble :: "session \<Rightarrow> string \<Rightarrow> string list" where
  "preamble s ovmf_code =
     [''qemu-system-x86_64'',
      ''-name'', dict_get (config s) ''VM_NAME'' ''unknown'',
      ''-machine'', ''q35'', ''-accel'', ''kvm'',
      ''-object'', ''iothread,id=io0'',
      ''-cpu'', ''host,hv_relaxed,hv_spinlocks=0x1fff,hv_vapic,hv_time,hv_synic,hv_stimer,hv_reset,hv_vpindex,hv_runtime,hv_frequencies'',
      ''-m'', dict_get (config s) ''MEM_SIZE'' ''4G'',
      ''-smp'', dict_get (config s) ''CPU_CORES'' ''2'',
      ''-drive'', ''if=pflash,format=raw,readonly=on,file='' @ ovmf_code,
      ''-drive'', ''if=pflash,format=raw,file='' @ vars_file s,
      ''-device'', ''virtio-balloon-pci'',
      ''-device'', ''virtio-rng-pci'',
      ''-device'', ''virtio-serial-pci'',
      ''-device'', ''virtio-keyboard-pci'',
      ''-device'', ''virtio-tablet-pci'',
      ''-device'', ''qemu-xhci,id=usb'',
      ''-device'', ''usb-tablet'',
      ''-device'', ''usb-kbd'',
      ''-device'', ''virtio-vga-gl'', ''-display'', ''gtk,gl=on,zoom-to-fit=on'',
      ''-device'', ''intel-hda'', ''-device'', ''hda-duplex'',
      ''-device'', ''virtio-net-pci,netdev=net0,mq=on'', ''-netdev'', ''user,id=net0'']"

text \<open>The body of \<open>for i, disk in enumerate(self.session.disks)\<close>: what one disk extends
  the command with.\<close>

definition disk_args :: "filesys \<Rightarrow> session \<Rightarrow> nat \<times> string \<Rightarrow> string list" where
  "disk_args fs s = (\<lambda>(i, disk).
     (let disk_path = path_join (disk_dir s) disk in
      if path_exists fs disk_path then
        (let drive_id = ''drive_disk_'' @ str_nat i;
             serial = ''DISK_'' @ str_nat i in
         [''-drive'', ''file='' @ disk_path @ '',format=qcow2,if=none,id='' @ drive_id @ '',cache=writeback'',
          ''-device'', ''virtio-blk-pci,drive='' @ drive_id @ '',serial='' @ serial
                        @ '',bootindex='' @ str_nat (i + 1) @ '',iothread=io0''])
      else []))"

definition iso_args :: "filesys \<Rightarrow> session \<Rightarrow> nat \<times> string \<Rightarrow> string list" where
  "iso_args fs s = (\<lambda>(i, iso).
     (let iso_path = path_join (iso_dir s) iso in
      if path_exists fs iso_path then
        [''-drive'', ''file='' @ iso_path @ '',media=cdrom,readonly=on'']
      else []))"

definition shared_args :: "session \<Rightarrow> string list" where
  "shared_args s =
     [''-drive'', ''file=fat:ro:'' @ shared_dir s @ '',format=raw,if=none,id=drive_shared,readonly=on'',
      ''-device'', ''usb-storage,drive=drive_shared,serial=SHARED_AUTO,removable=on'']"

definition transient_args :: "filesys \<Rightarrow> nat \<times> path \<Rightarrow> string list" where
  "transient_args fs = (\<lambda>(i, p).
     (let drive_id = ''drive_trans_'' @ str_nat i;
          serial = ''TRANS_'' @ str_nat i in
      if path_isdir fs p then
        [''-drive'', ''file=fat:ro:'' @ p @ '',format=raw,if=none,id='' @ drive_id @ '',readonly=on'',
         ''-device'', ''usb-storage,drive='' @ drive_id @ '',serial='' @ serial @ '',removable=on'']
      else if path_isfile fs p then
        [''-drive'', ''file='' @ p @ '',format=raw,if=none,id='' @ drive_id @ '',readonly=on'',
         ''-device'', ''usb-storage,drive='' @ drive_id @ '',serial='' @ serial @ '',removable=on'']
      else []))"

definition build_command :: "filesys \<Rightarrow> session \<Rightarrow> string \<Rightarrow> string list" where
  "build_command fs s ovmf_code =
     preamble s ovmf_code
     @ concat (map (disk_args fs s) (enumerate 0 (disks s)))
     @ concat (map (iso_args fs s) (enumerate 0 (isos s)))
     @ shared_args s
     @ concat (map (transient_args fs) (enumerate 0 (transient_mounts s)))"

text \<open>Reading an argument vector: the arguments that directly follow a \<open>-device\<close> flag.\<close>

fun device_entries :: "string list \<Rightarrow> string list" where
  "device_entries (a # b # rest) =
     (if a = ''-device'' then b # device_entries (b # rest) else device_entries (b # rest))"
| "device_entries [a] = []"
| "device_entries [] = []"

definition virtio_blk_entries :: "string list \<Rightarrow> string list" where
  "virtio_blk_entries cmd = filter (prefix ''virtio-blk-pci,'') (device_entries cmd)"

section \<open>Python string operations used by the config parser\<close>

text \<open>\<open>str.isspace\<close> on the code points below 256.\<close>

definition is_space :: "char \<Rightarrow> bool" where
  "is_space c = (c \<in> set [CHR 0x09, CHR 0x0A, CHR 0x0B, CHR 0x0C, CHR 0x0D, CHR 0x1C, CHR 0x1D,
                             CHR 0x1E, CHR 0x1F, CHR 0x20, CHR 0x85, CHR 0xA0])"

text \<open>\<open>s.strip(chars)\<close>: drop the characters satisfying \<open>P\<close> from both ends.\<close>

definition strip_chars :: "(char \<Rightarrow> bool) \<Rightarrow> string \<Rightarrow> string" where
  "strip_chars P s = rev (dropWhile P (rev (dropWhile P s)))"

definition py_strip :: "string \<Rightarrow> string" where
  "py_strip = strip_chars is_space"

text \<open>\<open>s.split(sep)\<close> for a one-character separator.\<close>

fun py_split :: "char \<Rightarrow> string \<Rightarrow> string list" where
  "py_split sep [] = [[]]"
| "py_split sep (c # cs) =
     (if c = sep then [] # py_split sep cs
      else (case py_split sep cs of p # ps \<Rightarrow> (c # p) # ps | [] \<Rightarrow> [[c]]))"

text \<open>\<open>key, val = s.split(sep, 1)\<close> for a string that contains \<open>sep\<close> (the source guards the
  call with \<open>'=' in line\<close>, and \<open>strip\<close> removes no \<open>=\<close>, so there are always two parts).\<close>

definition split_once :: "char \<Rightarrow> string \<Rightarrow> string \<times> string" where
  "split_once sep s = (takeWhile (\<lambda>c. c \<noteq> sep) s, drop 1 (dropWhile (\<lambda>c. c \<noteq> sep) s))"

text \<open>\<open>int(s)\<close>: surrounding whitespace, an optional sign, then decimal digits; \<open>None\<close> is
  \<open>ValueError\<close>. Its argument here is a piece of \<open>split("_")\<close>, so it never holds an
  underscore.\<close>

definition is_digit :: "char \<Rightarrow> bool" where
  "is_digit c = (c \<in> set ''0123456789'')"

definition digit_val :: "char \<Rightarrow> nat" where
  "digit_val c = of_char c - 48"

definition digits_val :: "string \<Rightarrow> nat" where
  "digits_val ds = foldl (\<lambda>a c. 10 * a + digit_val c) 0 ds"

definition py_int :: "string \<Rightarrow> int option" where
  "py_int s =
     (let t = py_strip s;
          neg = (t \<noteq> [] \<and> hd t = CHR ''-'');
          ds = (if t \<noteq> [] \<and> (hd t = CHR ''-'' \<or> hd t = CHR ''+'') then tl t else t)
      in if ds \<noteq> [] \<and> list_all is_digit ds
         then Some (if neg then - int (digits_val ds) else int (digits_val ds))
         else None)"

section \<open>Session.load and Session.save\<close>

text \<open>Reading a text file: universal newlines, then \<open>for line in f\<close> (a line keeps its
  terminator).\<close>

fun translate_newlines :: "string \<Rightarrow> string" where
  "translate_newlines [] = []"
| "translate_newlines [c] = (if c = CR then [LF] else [c])"
| "translate_newlines (c # d # cs) =
     (if c = CR then (if d = LF then LF # translate_newlines cs
                      else LF # translate_newlines (d # cs))
      else c # translate_newlines (d # cs))"

fun file_lines :: "string \<Rightarrow> string list" where
  "file_lines [] = []"
| "file_lines (c # cs) =
     (if c = LF then [c] # file_lines cs
      else (case file_lines cs of [] \<Rightarrow> [[c]] | l # ls \<Rightarrow> (c # l) # ls))"

text \<open>\<open>int(key.split("_")[1])\<close> inside \<open>try ... except: continue\<close>.\<close>

definition key_index :: "string \<Rightarrow> int option" where
  "key_index key = (case py_split CHR ''_'' key of a # b # rest \<Rightarrow> py_int b | _ \<Rightarrow> None)"

text \<open>The body of the loop over the lines, in two halves: what a line is, and what it
  does to \<open>(self.config, disk_map, iso_map)\<close>.\<close>

datatype entry = DiskEntry int string | IsoEntry int string | ConfigEntry string string | Skip

definition parse_line :: "string \<Rightarrow> entry" where
  "parse_line line =
     (if CHR ''='' \<in> set line then
        (let (key, val0) = split_once CHR ''='' (py_strip line);
             val = strip_chars (\<lambda>c. c = SQ) (strip_chars (\<lambda>c. c = DQ) val0)
         in if prefix ''DISK_'' key then
              (case key_index key of None \<Rightarrow> Skip | Some idx \<Rightarrow> DiskEntry idx val)
            else if prefix ''ISO_'' key then
              (case key_index key of None \<Rightarrow> Skip | Some idx \<Rightarrow> IsoEntry idx val)
            else ConfigEntry key val)
      else Skip)"

type_synonym load_state = "(string \<times> string) list \<times> (int \<times> string) list \<times> (int \<times> string) list"

fun apply_entry :: "entry \<Rightarrow> load_state \<Rightarrow> load_state" where
  "apply_entry (DiskEntry idx val) (cfg, disk_map, iso_map) = (cfg, AList.update idx val disk_map, iso_map)"
| "apply_entry (IsoEntry idx val) (cfg, disk_map, iso_map) = (cfg, disk_map, AList.update idx val iso_map)"
| "apply_entry (ConfigEntry key val) (cfg, disk_map, iso_map) = (AList.update key val cfg, disk_map, iso_map)"
| "apply_entry Skip st = st"

definition load_line :: "string \<Rightarrow> load_state \<Rightarrow> load_state" where
  "load_line line st = apply_entry (parse_line line) st"

text \<open>\<open>[m[i] for i in sorted(m.keys())]\<close>.\<close>

definition sorted_values :: "(int \<times> string) list \<Rightarrow> string list" where
  "sorted_values m = List.map_filter (map_of m) (sort (map fst m))"

text \<open>\<open>load\<close> returns its boolean and the session after it. \<open>open\<close> on a directory raises,
  which the \<open>except\<close> turns into \<open>False\<close>, after the three fields were emptied.\<close>

definition load :: "filesys \<Rightarrow> session \<Rightarrow> bool \<times> session" where
  "load fs s =
     (if \<not> path_exists fs (config_file s) then (False, s)
      else
        (let s0 = s\<lparr>config := [], disks := [], isos := []\<rparr> in
         case fs (config_file s) of
           Some (File content) \<Rightarrow>
             (let (cfg, disk_map, iso_map) =
                    fold load_line (file_lines (translate_newlines content)) ([], [], [])
              in (True, s0\<lparr>config := cfg, disks := sorted_values disk_map,
                             isos := sorted_values iso_map\<rparr>))
         | _ \<Rightarrow> (False, s0)))"

datatype error = FileExistsError | IsADirectoryError | FileNotFoundError | SameFileError
  | OSError | CalledProcessError | IndexError

text \<open>\<open>os.makedirs(p, exist_ok=True)\<close> on the flat file system (ancestors are not tracked):
  a regular file at \<open>p\<close> raises. Effects made before an exception stay, so every operation
  returns the file system it leaves together with the exception, if any.\<close>

definition makedirs :: "path \<Rightarrow> filesys \<Rightarrow> filesys \<times> error option" where
  "makedirs p fs = (case fs p of Some (File c) \<Rightarrow> (fs, Some FileExistsError) | _ \<Rightarrow> (fs(p \<mapsto> Dir), None))"

fun seq_ops :: "(filesys \<Rightarrow> filesys \<times> error option) list \<Rightarrow> filesys \<Rightarrow> filesys \<times> error option" where
  "seq_ops [] fs = (fs, None)"
| "seq_ops (f # fs') fs = (case f fs of (fs1, None) \<Rightarrow> seq_ops fs' fs1 | (fs1, Some e) \<Rightarrow> (fs1, Some e))"

definition create_structure :: "session \<Rightarrow> filesys \<Rightarrow> filesys \<times> error option" where
  "create_structure s =
     seq_ops [makedirs (dir s), makedirs (shared_dir s), makedirs (iso_dir s), makedirs (disk_dir s)]"

definition config_line :: "string \<Rightarrow> string \<Rightarrow> string" where
  "config_line key val = key @ ''='' @ [DQ] @ val @ [DQ, LF]"

definition config_text :: "session \<Rightarrow> string" where
  "config_text s =
     concat (map (\<lambda>(key, val). config_line key val) (config s))
     @ concat (map (\<lambda>(i, disk). config_line (''DISK_'' @ str_nat i) disk) (enumerate 0 (disks s)))
     @ concat (map (\<lambda>(i, iso). config_line (''ISO_'' @ str_nat i) iso) (enumerate 0 (isos s)))"

definition write_config :: "session \<Rightarrow> filesys \<Rightarrow> filesys \<times> error option" where
  "write_config s fs =
     (if fs (config_file s) = Some Dir then (fs, Some IsADirectoryError)
      else (fs(config_file s \<mapsto> File (config_text s)), None))"

definition save :: "session \<Rightarrow> filesys \<Rightarrow> filesys \<times> error option" where
  "save s = seq_ops [create_structure s, write_config s]"

text \<open>An argument list is closed when its last element is not a pending \<open>-device\<close> flag.\<close>

definition closed_args :: "string list \<Rightarrow> bool" where
  "closed_args xs = (xs = [] \<or> last xs \<noteq> ''-device'')"

definition blk_device :: "nat \<times> string \<Rightarrow> string" where
  "blk_device = (\<lambda>(i, d). ''virtio-blk-pci,drive=drive_disk_'' @ str_nat i @ '',serial=DISK_'' @ str_nat i
                        @ '',bootindex='' @ str_nat (i + 1) @ '',iothread=io0'')"

text \<open>Concrete worlds used to evaluate the model.\<close>

definition fs_abc :: filesys where
  "fs_abc = [''/r/vm/disks/B.qcow2'' \<mapsto> File [], ''/r/vm/disks/C.qcow2'' \<mapsto> File []]"

definition s_abc :: session where
  "s_abc = (Session_init ''/r'' ''vm'')\<lparr>disks := [''A.qcow2'', ''B.qcow2'', ''C.qcow2'']\<rparr>"

section \<open>What a config file assigns\<close>

text \<open>The lines of a config file, and the assignments they make in line order, by kind.\<close>

definition file_entries :: "string \<Rightarrow> string list" where
  "file_entries content = file_lines (translate_newlines content)"

fun disk_of :: "entry \<Rightarrow> (int \<times> string) option" where
  "disk_of (DiskEntry i v) = Some (i, v)"
| "disk_of _ = None"

fun iso_of :: "entry \<Rightarrow> (int \<times> string) option" where
  "iso_of (IsoEntry i v) = Some (i, v)"
| "iso_of _ = None"

fun config_of :: "entry \<Rightarrow> (string \<times> string) option" where
  "config_of (ConfigEntry k v) = Some (k, v)"
| "config_of _ = None"

definition disk_assigns :: "string list \<Rightarrow> (int \<times> string) list" where
  "disk_assigns ls = List.map_filter (\<lambda>l. disk_of (parse_line l)) ls"

definition iso_assigns :: "string list \<Rightarrow> (int \<times> string) list" where
  "iso_assigns ls = List.map_filter (\<lambda>l. iso_of (parse_line l)) ls"

definition config_assigns :: "string list \<Rightarrow> (string \<times> string) list" where
  "config_assigns ls = List.map_filter (\<lambda>l. config_of (parse_line l)) ls"

text \<open>A run of dict assignments \<open>d[k] = v\<close>.\<close>

definition updates :: "('k \<times> 'v) list \<Rightarrow> ('k \<times> 'v) list \<Rightarrow> ('k \<times> 'v) list" where
  "updates as d = fold (\<lambda>(k, v). AList.update k v) as d"

definition fs_ba :: filesys where
  "fs_ba = [''/r/vm/config.conf'' \<mapsto>
      File (''DISK_1='' @ [DQ] @ ''b.qcow2'' @ [DQ, LF] @ ''DISK_0='' @ [DQ] @ ''a.qcow2'' @ [DQ, LF])]"





section \<open>Saving and re-loading\<close>

text \<open>Keys, values and file names that the line format can carry: the writer escapes nothing,
  and the reader strips whitespace and both kinds of quotes.\<close>

definition no_linebreak :: "string \<Rightarrow> bool" where
  "no_linebreak s = (LF \<notin> set s \<and> CR \<notin> set s)"

definition clean_key :: "string \<Rightarrow> bool" where
  "clean_key k = (no_linebreak k \<and> CHR ''='' \<notin> set k \<and> (k = [] \<or> \<not> is_space (hd k)))"

definition clean_value :: "string \<Rightarrow> bool" where
  "clean_value v = (DQ \<notin> set v \<and> (v = [] \<or> (hd v \<noteq> SQ \<and> last v \<noteq> SQ)))"

definition unquote :: "string \<Rightarrow> string" where
  "unquote v = strip_chars (\<lambda>c. c = SQ) (strip_chars (\<lambda>c. c = DQ) ([DQ] @ v @ [DQ]))"

definition classify :: "string \<Rightarrow> string \<Rightarrow> entry" where
  "classify key val =
     (if prefix ''DISK_'' key then
        (case key_index key of None \<Rightarrow> Skip | Some idx \<Rightarrow> DiskEntry idx val)
      else if prefix ''ISO_'' key then
        (case key_index key of None \<Rightarrow> Skip | Some idx \<Rightarrow> IsoEntry idx val)
      else ConfigEntry key val)"

definition line_body :: "string \<times> string \<Rightarrow> string" where
  "line_body = (\<lambda>(k, v). k @ ''='' @ [DQ] @ v @ [DQ])"

definition items :: "session \<Rightarrow> (string \<times> string) list" where
  "items s = config s
     @ map (\<lambda>(i, d). (''DISK_'' @ str_nat i, d)) (enumerate 0 (disks s))
     @ map (\<lambda>(i, d). (''ISO_'' @ str_nat i, d)) (enumerate 0 (isos s))"

definition clean_session :: "session \<Rightarrow> bool" where
  "clean_session s =
     (distinct (map fst (config s)) \<and>
      (\<forall>(k, v) \<in> set (config s). clean_key k \<and> no_linebreak v) \<and>
      (\<forall>d \<in> set (disks s @ isos s). no_linebreak d))"

definition config_item :: "string \<times> string \<Rightarrow> (string \<times> string) option" where
  "config_item = (\<lambda>(k, v). if prefix ''DISK_'' k \<or> prefix ''ISO_'' k then None else Some (k, unquote v))"

definition s_quoted :: session where
  "s_quoted = (Session_init ''/r'' ''vm'')
     \<lparr>config := [(''CPU_CORES'', [SQ] @ ''4'' @ [SQ]), (''MEM_SIZE'', ''8G'')]\<rparr>"

definition s_plain :: session where
  "s_plain = (Session_init ''/r'' ''vm'')
     \<lparr>config := [(''VM_NAME'', ''vm''), (''MEM_SIZE'', ''8G''), (''CPU_CORES'', ''4'')],
      disks := [''system.qcow2''], isos := [''win.iso'']\<rparr>"

section \<open>The world outside the session object\<close>

text \<open>
  What the operating system and \<open>qemu-img\<close> answer is an input of the model. An
  \<open>env\<close> fixes whether the external steps succeed where the file system alone does not
  decide it, and what the metadata inspector reports for a path. The bytes of an image
  are not modelled: only which paths exist, which are directories, and the text of the
  config file. A failed external step leaves the file system as it was.
\<close>

type_synonym json = "(string \<times> string) list"

datatype inspection = ProcessFailed | Unparseable | Parsed json

record env =
  qemu_img_info :: "path \<Rightarrow> inspection"
  create_ok :: bool
  commit_ok :: bool
  remove_ok :: bool
  copy_ok :: bool
  abspath_expanduser :: "string \<Rightarrow> path"

type_synonym world = "filesys \<times> session"

text \<open>\<open>UI.get_input(prompt, default)\<close> on the line the user typed, and \<open>str.lower\<close> on code
  points below 256.\<close>

definition get_input :: "string \<Rightarrow> string \<Rightarrow> string" where
  "get_input typed dflt = (let user_input = py_strip typed in if user_input \<noteq> [] then user_input else dflt)"

definition lower_char :: "char \<Rightarrow> char" where
  "lower_char c =
     (let n = (of_char c :: nat)
      in if (65 \<le> n \<and> n \<le> 90) \<or> (192 \<le> n \<and> n \<le> 222 \<and> n \<noteq> 215) then char_of (n + 32) else c)"

definition py_lower :: "string \<Rightarrow> string" where
  "py_lower s = map lower_char s"

text \<open>\<open>UI.get_input(..., "N").lower() == 'y'\<close>.\<close>

definition confirmed :: "string \<Rightarrow> bool" where
  "confirmed typed = (py_lower (get_input typed ''N'') = ''y'')"

text \<open>\<open>os.path.basename\<close> and \<open>os.path.splitext\<close> (a leading run of dots of the last
  component is no extension).\<close>

definition basename :: "path \<Rightarrow> string" where
  "basename p = rev (takeWhile (\<lambda>c. c \<noteq> CHR ''/'') (rev p))"

definition splitext :: "path \<Rightarrow> string \<times> string" where
  "splitext p =
     (let base = basename p;
          head = take (length p - length base) p;
          ext = CHR ''.'' # rev (takeWhile (\<lambda>c. c \<noteq> CHR ''.'') (rev base));
          stem = take (length base - length ext) base
      in if CHR ''.'' \<in> set base \<and> (\<exists>c \<in> set stem. c \<noteq> CHR ''.'') then (head @ stem, ext)
         else (p, []))"

text \<open>\<open>os.remove\<close>, \<open>qemu-img create -f qcow2 -b backing -F qcow2 name\<close> run in \<open>cwd\<close>
  with \<open>check=True\<close>, \<open>qemu-img commit\<close> with \<open>check=True\<close>, and \<open>shutil.copy2\<close>.\<close>

definition os_remove :: "env \<Rightarrow> path \<Rightarrow> filesys \<Rightarrow> filesys \<times> error option" where
  "os_remove e p fs =
     (case fs p of
        Some (File c) \<Rightarrow> if remove_ok e then (fs(p := None), None) else (fs, Some OSError)
      | Some Dir \<Rightarrow> (fs, Some IsADirectoryError)
      | None \<Rightarrow> (fs, Some FileNotFoundError))"

definition qemu_img_create :: "env \<Rightarrow> path \<Rightarrow> string \<Rightarrow> filesys \<Rightarrow> filesys \<times> error option" where
  "qemu_img_create e cwd nm fs =
     (if create_ok e \<and> fs (path_join cwd nm) \<noteq> Some Dir
      then (fs(path_join cwd nm \<mapsto> File []), None)
      else (fs, Some CalledProcessError))"

definition qemu_img_commit :: "env \<Rightarrow> path \<Rightarrow> filesys \<Rightarrow> filesys \<times> error option" where
  "qemu_img_commit e p fs = (fs, if commit_ok e then None else Some CalledProcessError)"

definition copy2 :: "env \<Rightarrow> path \<Rightarrow> path \<Rightarrow> filesys \<Rightarrow> filesys \<times> error option" where
  "copy2 e src dst fs =
     (let dst' = (if path_isdir fs dst then path_join dst (basename src) else dst)
      in if src = dst' then (fs, Some SameFileError)
         else (case fs src of
                 Some (File c) \<Rightarrow>
                   if path_isdir fs dst' then (fs, Some IsADirectoryError)
                   else if copy_ok e then (fs(dst' \<mapsto> File c), None)
                   else (fs, Some OSError)
               | Some Dir \<Rightarrow> (fs, Some IsADirectoryError)
               | None \<Rightarrow> (fs, Some FileNotFoundError)))"

section \<open>Session.get_disk_info and Session.snapshot_ops\<close>

text \<open>The JSON object of \<open>qemu-img info --output=json\<close> with its string fields; \<open>None\<close> is the
  \<open>None\<close> of the source.\<close>

definition get_disk_info :: "env \<Rightarrow> filesys \<Rightarrow> session \<Rightarrow> string \<Rightarrow> json option" where
  "get_disk_info e fs s disk_name =
     (let p = path_join (disk_dir s) disk_name
      in if \<not> path_exists fs p then None
         else (case qemu_img_info e p of Parsed obj \<Rightarrow> Some obj | _ \<Rightarrow> None))"

text \<open>How \<open>snapshot_ops\<close> reads \<open>info\<close>: \<open>if not info: return\<close>, then
  \<open>is_overlay = 'backing-filename' in info\<close>.\<close>

datatype disk_state = Unknown | Base | Overlay string

definition disk_state_of :: "json option \<Rightarrow> disk_state" where
  "disk_state_of info =
     (case info of
        None \<Rightarrow> Unknown
      | Some obj \<Rightarrow>
          if obj = [] then Unknown
          else (case map_of obj ''backing-filename'' of Some backing \<Rightarrow> Overlay backing | None \<Rightarrow> Base))"

text \<open>
  Each operation returns the worlds it passes through, the first being the one it starts
  from and the last the one it leaves, and the exception that escapes it, if any.
  \<open>self.disks[idx] = v\<close> raises \<open>IndexError\<close> out of range.
\<close>

type_synonym run = "world list \<times> error option"

definition op_reset :: "env \<Rightarrow> string \<Rightarrow> string \<Rightarrow> world \<Rightarrow> run" where
  "op_reset e disk_name backing = (\<lambda>(fs, s).
     (case os_remove e (path_join (disk_dir s) disk_name) fs of
        (fs1, Some err) \<Rightarrow> ([(fs, s), (fs1, s)], None)
      | (fs1, None) \<Rightarrow>
          (case qemu_img_create e (disk_dir s) disk_name fs1 of
             (fs2, r) \<Rightarrow> ([(fs, s), (fs1, s), (fs2, s)], None))))"

definition op_commit :: "env \<Rightarrow> string \<Rightarrow> world \<Rightarrow> run" where
  "op_commit e disk_name = (\<lambda>(fs, s).
     (case qemu_img_commit e (path_join (disk_dir s) disk_name) fs of
        (fs1, r) \<Rightarrow> ([(fs, s), (fs1, s)], None)))"

definition op_discard :: "env \<Rightarrow> nat \<Rightarrow> string \<Rightarrow> string \<Rightarrow> world \<Rightarrow> run" where
  "op_discard e idx disk_name backing = (\<lambda>(fs, s).
     if \<not> path_exists fs (path_join (disk_dir s) backing) then ([(fs, s)], None)
     else if \<not> idx < length (disks s) then ([(fs, s)], Some IndexError)
     else
       (let s1 = s\<lparr>disks := (disks s)[idx := backing]\<rparr>
        in case save s1 fs of
             (fs2, Some err) \<Rightarrow> ([(fs, s), (fs, s1), (fs2, s1)], Some err)
           | (fs2, None) \<Rightarrow>
               (case os_remove e (path_join (disk_dir s) disk_name) fs2 of
                  (fs3, r) \<Rightarrow> ([(fs, s), (fs, s1), (fs2, s1), (fs3, s1)], None))))"

definition overlay_name_of :: "string \<Rightarrow> string" where
  "overlay_name_of disk_name = fst (splitext disk_name) @ ''.snap.qcow2''"

definition op_create_overlay :: "env \<Rightarrow> nat \<Rightarrow> string \<Rightarrow> world \<Rightarrow> run" where
  "op_create_overlay e idx disk_name = (\<lambda>(fs, s).
     (let overlay_name = overlay_name_of disk_name;
          overlay_path = path_join (disk_dir s) overlay_name
      in if path_exists fs overlay_path then ([(fs, s)], None)
         else
           (case qemu_img_create e (disk_dir s) overlay_name fs of
              (fs1, Some err) \<Rightarrow> ([(fs, s), (fs1, s)], None)
            | (fs1, None) \<Rightarrow>
                if \<not> idx < length (disks s) then ([(fs, s), (fs1, s)], None)
                else
                  (let s1 = s\<lparr>disks := (disks s)[idx := overlay_name]\<rparr>
                   in case save s1 fs1 of
                        (fs2, r) \<Rightarrow> ([(fs, s), (fs1, s), (fs1, s1), (fs2, s1)], None)))))"

text \<open>\<open>op_typed\<close> is the line typed at the operation menu, \<open>confirm_typed\<close> the line typed at
  the confirmation prompt of the chosen operation (creating an overlay asks for none).\<close>

definition snapshot_ops ::
  "env \<Rightarrow> string \<Rightarrow> string \<Rightarrow> nat \<Rightarrow> string \<Rightarrow> json option \<Rightarrow> world \<Rightarrow> run" where
  "snapshot_ops e op_typed confirm_typed idx disk_name info w =
     (let op = py_lower (py_strip op_typed)
      in case disk_state_of info of
           Unknown \<Rightarrow> ([w], None)
         | Overlay backing \<Rightarrow>
             if op = ''r'' then (if confirmed confirm_typed then op_reset e disk_name backing w else ([w], None))
             else if op = ''c'' then (if confirmed confirm_typed then op_commit e disk_name w else ([w], None))
             else if op = ''d'' then
               (if confirmed confirm_typed then op_discard e idx disk_name backing w else ([w], None))
             else ([w], None)
         | Base \<Rightarrow>
             if op = ''c'' then op_create_overlay e idx disk_name w else ([w], None))"

section \<open>Session.import_resource and the import choices of the menus\<close>

definition expand_path :: "env \<Rightarrow> string \<Rightarrow> path" where
  "expand_path e p = (if p = [] then [] else abspath_expanduser e p)"

definition import_resource ::
  "env \<Rightarrow> string \<Rightarrow> string \<Rightarrow> path \<Rightarrow> filesys \<Rightarrow> string option \<times> filesys" where
  "import_resource e confirm_typed src_path target_dir fs =
     (if src_path = [] then (None, fs)
      else
        (let src = expand_path e src_path
         in if \<not> path_exists fs src then (None, fs)
            else
              (let filename = basename src;
                   dest_path = path_join target_dir filename
               in if path_exists fs dest_path \<and> py_lower (get_input confirm_typed ''N'') \<noteq> ''y''
                  then (Some filename, fs)
                  else (case copy2 e src dest_path fs of
                          (fs1, None) \<Rightarrow> (Some filename, fs1)
                        | (fs1, Some err) \<Rightarrow> (None, fs1)))))"

text \<open>The branch \<open>choice == 'i'\<close> of \<open>manage_disk\<close> and of \<open>manage_cdrom\<close>; \<open>path_typed\<close> is the
  line typed at the path prompt. \<open>if imported_name:\<close> is false for \<open>None\<close> and for the empty
  string.\<close>

definition manage_disk_import :: "env \<Rightarrow> string \<Rightarrow> string \<Rightarrow> world \<Rightarrow> world \<times> error option" where
  "manage_disk_import e path_typed confirm_typed = (\<lambda>(fs, s).
     (case import_resource e confirm_typed (get_input path_typed []) (disk_dir s) fs of
        (Some imported_name, fs1) \<Rightarrow>
          if imported_name \<noteq> [] then
            (let s1 = s\<lparr>disks := disks s @ [imported_name]\<rparr>
             in case save s1 fs1 of (fs2, r) \<Rightarrow> ((fs2, s1), r))
          else ((fs1, s), None)
      | (None, fs1) \<Rightarrow> ((fs1, s), None)))"

definition manage_cdrom_import :: "env \<Rightarrow> string \<Rightarrow> string \<Rightarrow> world \<Rightarrow> world \<times> error option" where
  "manage_cdrom_import e path_typed confirm_typed = (\<lambda>(fs, s).
     (case import_resource e confirm_typed (get_input path_typed []) (iso_dir s) fs of
        (Some imported_name, fs1) \<Rightarrow>
          if imported_name \<noteq> [] then
            (let s1 = s\<lparr>isos := isos s @ [imported_name]\<rparr>
             in case save s1 fs1 of (fs2, r) \<Rightarrow> ((fs2, s1), r))
          else ((fs1, s), None)
      | (None, fs1) \<Rightarrow> ((fs1, s), None)))"

text \<open>A session with one overlay disk over its base image, and an environment in which every
  external step succeeds.\<close>

definition env_ok :: env where
  "env_ok = \<lparr> qemu_img_info = (\<lambda>p. if p = ''/r/vm/disks/sys.snap.qcow2''
                                     then Parsed [(''filename'', ''sys.snap.qcow2''), (''backing-filename'', ''sys.qcow2'')]
                                     else if p = ''/r/vm/disks/sys.qcow2'' then Parsed [(''filename'', ''sys.qcow2'')]
                                     else ProcessFailed),
              create_ok = True, commit_ok = True, remove_ok = True, copy_ok = True,
              abspath_expanduser = (\<lambda>p. p) \<rparr>"

definition s_snap :: session where
  "s_snap = (Session_init ''/r'' ''vm'')\<lparr>config := [(''VM_NAME'', ''vm'')], disks := [''sys.snap.qcow2'']\<rparr>"

definition fs_snap :: filesys where
  "fs_snap = [''/r/vm/config.conf'' \<mapsto> File (config_text s_snap),
              ''/r/vm/disks/sys.snap.qcow2'' \<mapsto> File [],
              ''/r/vm/disks/sys.qcow2'' \<mapsto> File []]"

definition s_base :: session where
  "s_base = (Session_init ''/r'' ''vm'')\<lparr>config := [(''VM_NAME'', ''vm'')], disks := [''sys.qcow2'']\<rparr>"

text \<open>A file system with two files to import, one of which is already in the disk directory.\<close>

definition fs_import :: filesys where
  "fs_import = [''/r/vm/config.conf'' \<mapsto> File (config_text s_base),
                ''/r/vm/disks/sys.qcow2'' \<mapsto> File [],
                ''/r/vm/disks/a.qcow2'' \<mapsto> File ''old'',
                ''/tmp/a.qcow2'' \<mapsto> File ''new'',
                ''/tmp/b.qcow2'' \<mapsto> File ''fresh'']"

section \<open>The persisted config and the files it names\<close>







section \<open>Command synthesis: virtio-blk devices\<close>

lemma device_entries_append:
  "closed_args xs \<Longrightarrow> device_entries (xs @ ys) = device_entries xs @ device_entries ys"
proof (induction xs rule: device_entries.induct)
  case (1 a b rest)
  then show ?case by (simp add: closed_args_def)
next
  case (2 a)
  then show ?case by (cases ys) (auto simp: closed_args_def)
next
  case 3
  then show ?case by simp
qed

lemma virtio_blk_entries_append:
  "closed_args xs \<Longrightarrow> virtio_blk_entries (xs @ ys) = virtio_blk_entries xs @ virtio_blk_entries ys"
  by (simp add: virtio_blk_entries_def device_entries_append)

lemma closed_args_append: "closed_args xs \<Longrightarrow> closed_args ys \<Longrightarrow> closed_args (xs @ ys)"
  by (cases "ys = []") (auto simp: closed_args_def)

lemma closed_args_concat: "(\<And>xs. xs \<in> set xss \<Longrightarrow> closed_args xs) \<Longrightarrow> closed_args (concat xss)"
  by (induction xss) (auto simp: closed_args_append, simp add: closed_args_def)

lemma preamble_blk: "virtio_blk_entries (preamble s ovmf) = []"
  by (simp add: virtio_blk_entries_def preamble_def)

lemma closed_preamble: "closed_args (preamble s ovmf)"
  by (simp add: preamble_def closed_args_def)

lemma closed_disk_args: "closed_args (disk_args fs s p)"
  by (cases p) (simp add: disk_args_def closed_args_def Let_def)

lemma closed_iso_args: "closed_args (iso_args fs s p)"
  by (cases p) (simp add: iso_args_def closed_args_def Let_def)

lemma closed_shared_args: "closed_args (shared_args s)"
  by (simp add: shared_args_def closed_args_def)

lemma closed_transient_args: "closed_args (transient_args fs p)"
  by (cases p) (simp add: transient_args_def closed_args_def Let_def)

lemma blk_iso: "virtio_blk_entries (concat (map (iso_args fs s) ps)) = []"
proof (induction ps)
  case Nil show ?case by (simp add: virtio_blk_entries_def)
next
  case (Cons p ps)
  have "virtio_blk_entries (iso_args fs s p) = []"
    by (cases p) (simp add: iso_args_def virtio_blk_entries_def Let_def)
  with Cons show ?case by (simp add: virtio_blk_entries_append closed_iso_args)
qed

lemma blk_shared: "virtio_blk_entries (shared_args s) = []"
  by (simp add: shared_args_def virtio_blk_entries_def)

lemma blk_transient: "virtio_blk_entries (concat (map (transient_args fs) ps)) = []"
proof (induction ps)
  case Nil show ?case by (simp add: virtio_blk_entries_def)
next
  case (Cons p ps)
  have "virtio_blk_entries (transient_args fs p) = []"
    by (cases p) (simp add: transient_args_def virtio_blk_entries_def Let_def)
  with Cons show ?case by (simp add: virtio_blk_entries_append closed_transient_args)
qed

lemma blk_disk:
  "virtio_blk_entries (concat (map (disk_args fs s) ps)) =
   map blk_device (filter (\<lambda>(i, d). path_exists fs (path_join (disk_dir s) d)) ps)"
proof (induction ps)
  case Nil show ?case by (simp add: virtio_blk_entries_def)
next
  case (Cons p ps)
  have "virtio_blk_entries (disk_args fs s p) =
        (if path_exists fs (path_join (disk_dir s) (snd p)) then [blk_device p] else [])"
    by (cases p) (simp add: disk_args_def virtio_blk_entries_def Let_def blk_device_def)
  with Cons show ?case by (cases p) (simp add: virtio_blk_entries_append closed_disk_args)
qed

text \<open>
  Claim C1. For every session and file system, the virtio-blk device entries of the
  synthesized argument vector are, in order, exactly one entry for each pair \<open>(i, d)\<close> of
  \<open>enumerate(disks)\<close> whose resolved file \<open>join(disk_dir, d)\<close> exists, and that entry
  carries \<open>bootindex = i + 1\<close> with \<open>i\<close> the position in the full disk list: a missing disk
  contributes no entry and does not renumber the later ones.
\<close>

theorem build_command_virtio_blk:
  "virtio_blk_entries (build_command fs s ovmf_code) =
   map (\<lambda>(i, d). ''virtio-blk-pci,drive=drive_disk_'' @ str_nat i @ '',serial=DISK_'' @ str_nat i
                        @ '',bootindex='' @ str_nat (i + 1) @ '',iothread=io0'')
       (filter (\<lambda>(i, d). path_exists fs (path_join (disk_dir s) d)) (enumerate 0 (disks s)))"
proof -
  have c1: "closed_args (concat (map (disk_args fs s) (enumerate 0 (disks s))))"
    by (rule closed_args_concat) (auto simp: closed_disk_args)
  have c2: "closed_args (concat (map (iso_args fs s) (enumerate 0 (isos s))))"
    by (rule closed_args_concat) (auto simp: closed_iso_args)
  show ?thesis
    unfolding build_command_def
    by (simp add: virtio_blk_entries_append closed_preamble c1 c2 closed_shared_args
        preamble_blk blk_disk blk_iso blk_shared blk_transient blk_device_def)
qed

text \<open>The spec's example: disks \<open>[A (missing), B, C]\<close> give B bootindex 2 and C bootindex 3.\<close>

theorem build_command_virtio_blk_witness:
  "virtio_blk_entries (build_command fs_abc s_abc ''/usr/share/OVMF/OVMF_CODE.fd'') =
   [''virtio-blk-pci,drive=drive_disk_1,serial=DISK_1,bootindex=2,iothread=io0'',
    ''virtio-blk-pci,drive=drive_disk_2,serial=DISK_2,bootindex=3,iothread=io0'']"
  using build_command_virtio_blk [of fs_abc s_abc "''/usr/share/OVMF/OVMF_CODE.fd''"]
  by (simp add: fs_abc_def s_abc_def Session_init_def path_join_def path_exists_def Let_def
      str_nat.simps digit_char_def)

section \<open>Loading a config file\<close>

lemma updates_simps [simp]:
  "updates [] d = d" "updates ((k, v) # as) d = updates as (AList.update k v d)"
  by (simp_all add: updates_def)

lemma map_of_updates: "map_of (updates as d) = map_of d ++ map_of (rev as)"
  by (induction as arbitrary: d)
     (auto simp: AList.update_conv' fun_eq_iff map_add_def split: option.splits)



lemma fold_load_line:
  "fold load_line ls (c, d, i) =
     (updates (config_assigns ls) c, updates (disk_assigns ls) d, updates (iso_assigns ls) i)"
proof (induction ls arbitrary: c d i)
  case Nil
  show ?case by (simp add: config_assigns_def disk_assigns_def iso_assigns_def)
next
  case (Cons l ls)
  have step: "fold load_line (l # ls) (c, d, i) =
              fold load_line ls (apply_entry (parse_line l) (c, d, i))"
    by (simp add: load_line_def)
  show ?case unfolding step
    by (cases "parse_line l")
       (simp_all add: Cons config_assigns_def disk_assigns_def iso_assigns_def)
qed


lemma load_file:
  "fs (config_file s) = Some (File content) \<Longrightarrow>
   load fs s = (True, s\<lparr>config := updates (config_assigns (file_entries content)) [],
                        disks := sorted_values (updates (disk_assigns (file_entries content)) []),
                        isos := sorted_values (updates (iso_assigns (file_entries content)) [])\<rparr>)"
  by (simp add: load_def path_exists_def fold_load_line file_entries_def)





text \<open>
  Claim C10. \<open>load\<close> changes at most the fields \<open>config\<close>, \<open>disks\<close> and \<open>isos\<close> of the
  session, on every path (missing file, unreadable file, parsed file); in particular
  \<open>transient_mounts\<close> is what it was before the call.
\<close>

theorem load_frame:
  "transient_mounts (snd (load fs s)) = transient_mounts s \<and>
   snd (load fs s) = s\<lparr>config := config (snd (load fs s)), disks := disks (snd (load fs s)),
                        isos := isos (snd (load fs s))\<rparr>"
  by (auto simp: load_def Let_def split: option.splits node.splits prod.splits)

theorem load_frame_witness:
  "transient_mounts (snd (load fs_ba ((Session_init ''/r'' ''vm'')\<lparr>transient_mounts := [''/mnt/usb'']\<rparr>)))
     = [''/mnt/usb'']
   \<and> disks (snd (load fs_ba ((Session_init ''/r'' ''vm'')\<lparr>transient_mounts := [''/mnt/usb'']\<rparr>)))
     = [''a.qcow2'', ''b.qcow2'']"
  using load_frame [of fs_ba "(Session_init ''/r'' ''vm'')\<lparr>transient_mounts := [''/mnt/usb'']\<rparr>"]
  by code_simp

lemma map_filter_append: "List.map_filter f (xs @ ys) = List.map_filter f xs @ List.map_filter f ys"
  by (simp add: List.map_filter_def)







section \<open>Saving and re-loading a session\<close>

lemma translate_newlines_id: "CR \<notin> set s \<Longrightarrow> translate_newlines s = s"
  by (induction s rule: translate_newlines.induct) auto

lemma file_lines_line: "LF \<notin> set l \<Longrightarrow> file_lines (l @ LF # rest) = (l @ [LF]) # file_lines rest"
  by (induction l) auto

lemma file_lines_concat:
  "(\<And>l. l \<in> set ls \<Longrightarrow> LF \<notin> set l) \<Longrightarrow>
   file_lines (concat (map (\<lambda>l. l @ [LF]) ls)) = map (\<lambda>l. l @ [LF]) ls"
  by (induction ls) (auto simp: file_lines_line)

lemma config_text_items: "config_text s = concat (map (\<lambda>l. l @ [LF]) (map line_body (items s)))"
  by (simp add: config_text_def items_def config_line_def line_body_def comp_def case_prod_unfold)

lemma digit_char_in: "d < 10 \<Longrightarrow> digit_char d \<in> set ''0123456789''"
proof -
  assume "d < 10"
  then have "d \<in> {0,1,2,3,4,5,6,7,8,9}" by auto
  then show ?thesis by (auto simp: digit_char_def)
qed

lemma str_nat_digits: "set (str_nat n) \<subseteq> set ''0123456789''"
proof (induction n rule: str_nat.induct)
  case (1 n)
  show ?case
  proof (cases "n < 10")
    case True
    then show ?thesis using digit_char_in[of n] by (subst str_nat.simps) simp
  next
    case False
    have "n mod 10 < 10" by simp
    from digit_char_in[OF this] 1[OF False] False show ?thesis
      by (subst str_nat.simps) simp
  qed
qed

lemma str_nat_clean:
  "LF \<notin> set (str_nat n)" "CR \<notin> set (str_nat n)" "CHR ''='' \<notin> set (str_nat n)"
  using str_nat_digits[of n] by (auto simp: LF_def CR_def)

lemma py_strip_line:
  assumes "k = [] \<or> \<not> is_space (hd k)"
  shows "py_strip (line_body (k, v) @ [LF]) = line_body (k, v)"
proof -
  have front: "dropWhile is_space (k @ ''='' @ [DQ] @ v @ [DQ] @ [LF]) = k @ ''='' @ [DQ] @ v @ [DQ] @ [LF]"
    using assms by (cases k) (auto simp: is_space_def)
  have a: "is_space LF" by (simp add: is_space_def LF_def)
  have b: "\<not> is_space DQ" by (simp add: is_space_def DQ_def)
  show ?thesis
    using front a b by (simp add: py_strip_def strip_chars_def line_body_def)
qed

lemma split_once_body:
  "CHR ''='' \<notin> set k \<Longrightarrow> split_once CHR ''='' (line_body (k, v)) = (k, [DQ] @ v @ [DQ])"
  by (simp add: split_once_def line_body_def takeWhile_append dropWhile_append)

lemma parse_line_body:
  assumes "CHR ''='' \<notin> set k" and "k = [] \<or> \<not> is_space (hd k)"
  shows "parse_line (line_body (k, v) @ [LF]) = classify k (unquote v)"
proof -
  have "CHR ''='' \<in> set (line_body (k, v) @ [LF])" by (simp add: line_body_def)
  then show ?thesis
    by (simp add: parse_line_def py_strip_line[OF assms(2)] split_once_body[OF assms(1)]
        classify_def unquote_def)
qed

lemma unquote_clean: "clean_value v \<Longrightarrow> unquote v = v"
proof -
  assume c: "clean_value v"
  have dq: "strip_chars (\<lambda>c. c = DQ) ([DQ] @ v @ [DQ]) = v"
  proof (cases "v = []")
    case True then show ?thesis by (simp add: strip_chars_def)
  next
    case False
    have "hd v \<in> set v" "last v \<in> set v" using False by simp_all
    with c have h: "hd v \<noteq> DQ" "last v \<noteq> DQ"
      by (auto simp: clean_value_def)
    have 1: "dropWhile (\<lambda>c. c = DQ) (v @ [DQ]) = v @ [DQ]"
      using False h by (cases v) auto
    have 2: "dropWhile (\<lambda>c. c = DQ) (rev v) = rev v"
      using False h by (cases "rev v") (auto simp: last_rev[symmetric] hd_rev)
    show ?thesis by (simp add: strip_chars_def 1 2)
  qed
  have sq: "strip_chars (\<lambda>c. c = SQ) v = v"
  proof (cases "v = []")
    case True then show ?thesis by (simp add: strip_chars_def)
  next
    case False
    with c have h: "hd v \<noteq> SQ" "last v \<noteq> SQ" by (auto simp: clean_value_def)
    have 1: "dropWhile (\<lambda>c. c = SQ) v = v" using False h by (cases v) auto
    have 2: "dropWhile (\<lambda>c. c = SQ) (rev v) = rev v"
      using False h by (cases "rev v") (auto simp: hd_rev)
    show ?thesis by (simp add: strip_chars_def 1 2)
  qed
  show ?thesis using dq sq by (simp add: unquote_def)
qed

lemma save_ok:
  "snd (save s fs) = None \<Longrightarrow> fst (save s fs) (config_file s) = Some (File (config_text s))"
  by (auto simp: save_def write_config_def split: prod.splits option.splits if_splits)

lemma items_clean:
  assumes "clean_session s" and "(k, v) \<in> set (items s)"
  shows "clean_key k \<and> no_linebreak v"
proof -
  from assms(2) consider
      (c) "(k, v) \<in> set (config s)"
    | (d) i where "k = ''DISK_'' @ str_nat i" "v \<in> set (disks s)"
    | (i) i where "k = ''ISO_'' @ str_nat i" "v \<in> set (isos s)"
    by (auto simp: items_def in_set_enumerate_eq)
  then show ?thesis
  proof cases
    case c
    with assms(1) show ?thesis by (auto simp: clean_session_def)
  next
    case d
    then show ?thesis using assms(1) str_nat_clean[of i]
      by (auto simp: clean_session_def clean_key_def no_linebreak_def is_space_def LF_def CR_def)
  next
    case i
    then show ?thesis using assms(1) str_nat_clean[of i]
      by (auto simp: clean_session_def clean_key_def no_linebreak_def is_space_def LF_def CR_def)
  qed
qed

lemma line_body_no_linebreak:
  "no_linebreak k \<Longrightarrow> no_linebreak v \<Longrightarrow> no_linebreak (line_body (k, v))"
  by (auto simp: no_linebreak_def line_body_def LF_def CR_def DQ_def)

lemma file_entries_config_text:
  assumes "clean_session s"
  shows "file_entries (config_text s) = map (\<lambda>l. l @ [LF]) (map line_body (items s))"
proof -
  have nl: "\<And>l. l \<in> set (map line_body (items s)) \<Longrightarrow> no_linebreak l"
  proof -
    fix l assume "l \<in> set (map line_body (items s))"
    then obtain k v where kv: "(k, v) \<in> set (items s)" "l = line_body (k, v)" by auto
    from items_clean[OF assms kv(1)] show "no_linebreak l"
      unfolding kv(2) by (auto intro: line_body_no_linebreak simp: clean_key_def)
  qed
  have "CR \<notin> set (config_text s)"
    unfolding config_text_items using nl by (auto simp: no_linebreak_def CR_def LF_def)
  then have "translate_newlines (config_text s) = config_text s"
    by (rule translate_newlines_id)
  moreover have "file_lines (config_text s) = map (\<lambda>l. l @ [LF]) (map line_body (items s))"
    unfolding config_text_items
    by (rule file_lines_concat) (use nl in \<open>auto simp: no_linebreak_def\<close>)
  ultimately show ?thesis by (simp add: file_entries_def)
qed

lemma entries_items:
  assumes "clean_session s"
  shows "map parse_line (file_entries (config_text s)) =
         map (\<lambda>(k, v). classify k (unquote v)) (items s)"
proof -
  have "\<And>kv. kv \<in> set (items s) \<Longrightarrow>
          parse_line (line_body kv @ [LF]) = (case kv of (k, v) \<Rightarrow> classify k (unquote v))"
  proof -
    fix kv assume m: "kv \<in> set (items s)"
    obtain k v where kv: "kv = (k, v)" by (cases kv)
    from items_clean[OF assms m[unfolded kv]] show "?thesis kv"
      unfolding kv by (simp add: parse_line_body clean_key_def)
  qed
  then show ?thesis
    by (simp add: file_entries_config_text[OF assms])
qed

lemma map_filter_map: "List.map_filter f (map g xs) = List.map_filter (\<lambda>x. f (g x)) xs"
  by (simp add: List.map_filter_def filter_map comp_def)

lemma assigns_via_map:
  "config_assigns ls = List.map_filter config_of (map parse_line ls)"
  "disk_assigns ls = List.map_filter disk_of (map parse_line ls)"
  "iso_assigns ls = List.map_filter iso_of (map parse_line ls)"
  by (simp_all add: config_assigns_def disk_assigns_def iso_assigns_def map_filter_map)

lemma config_of_classify:
  "config_of (classify k u) = (if prefix ''DISK_'' k \<or> prefix ''ISO_'' k then None else Some (k, u))"
  by (auto simp: classify_def split: option.splits)

lemma map_filter_None: "(\<And>x. x \<in> set xs \<Longrightarrow> f x = None) \<Longrightarrow> List.map_filter f xs = []"
  by (induction xs) (simp_all add: List.map_filter_simps)

lemma config_assigns_saved:
  assumes "clean_session s"
  shows "config_assigns (file_entries (config_text s)) = List.map_filter config_item (config s)"
proof -
  have eq: "config_assigns (file_entries (config_text s)) =
        List.map_filter (\<lambda>(k, v). config_of (classify k (unquote v))) (items s)"
    by (simp add: assigns_via_map entries_items[OF assms] map_filter_map case_prod_unfold)
  have f: "(\<lambda>(k, v). config_of (classify k (unquote v))) = config_item"
    by (auto simp: config_item_def config_of_classify fun_eq_iff)
  have d: "List.map_filter config_item (map (\<lambda>(i, d). (''DISK_'' @ str_nat i, d)) xs) = []" for xs
    by (rule map_filter_None) (auto simp: config_item_def)
  have i: "List.map_filter config_item (map (\<lambda>(i, d). (''ISO_'' @ str_nat i, d)) xs) = []" for xs
    by (rule map_filter_None) (auto simp: config_item_def)
  show ?thesis unfolding eq f
    using d[of "enumerate 0 (disks s)"] i[of "enumerate 0 (isos s)"]
    by (simp add: items_def map_filter_append)
qed

lemma map_of_rev_distinct:
  "distinct (map fst xs) \<Longrightarrow> map_of (rev xs) = map_of xs"
proof
  fix k assume d: "distinct (map fst xs)"
  then have dr: "distinct (map fst (rev xs))" by (simp add: rev_map[symmetric])
  show "map_of (rev xs) k = map_of xs k"
  proof (cases "map_of xs k")
    case None
    then have "k \<notin> fst ` set xs" by (simp add: map_of_eq_None_iff)
    then have "map_of (rev xs) k = None" by (simp add: map_of_eq_None_iff)
    with None show ?thesis by simp
  next
    case (Some v)
    then have "(k, v) \<in> set (rev xs)" by (auto dest: map_of_SomeD)
    with dr have "map_of (rev xs) k = Some v" by (rule map_of_is_SomeI)
    with Some show ?thesis by simp
  qed
qed

lemma map_filter_config_item_keys:
  "map fst (List.map_filter config_item xs) = filter (\<lambda>k. \<not> (prefix ''DISK_'' k \<or> prefix ''ISO_'' k)) (map fst xs)"
  by (induction xs) (auto simp: List.map_filter_simps config_item_def)

lemma saved_config_lookup:
  assumes "clean_session s" and "(k, v) \<in> set (config s)"
      and "\<not> prefix ''DISK_'' k" and "\<not> prefix ''ISO_'' k"
  shows "map_of (updates (config_assigns (file_entries (config_text s))) []) k = Some (unquote v)"
proof -
  let ?L = "List.map_filter config_item (config s)"
  have dist: "distinct (map fst ?L)"
    using assms(1) by (simp add: map_filter_config_item_keys clean_session_def)
  have "(k, unquote v) \<in> set ?L"
    using assms(2-4) by (force simp: List.map_filter_def config_item_def)
  with dist have "map_of ?L k = Some (unquote v)" by (rule map_of_is_SomeI)
  then show ?thesis
    by (simp add: map_of_updates config_assigns_saved[OF assms(1)] map_of_rev_distinct[OF dist])
qed

text \<open>
  Claim C2, as amended. Take a session whose config is a dict, in which no key holds \<open>=\<close>
  or a line break or starts with whitespace, and no value, disk name or ISO name holds a
  line break. If its values \<open>c\<close> of \<open>CPU_CORES\<close> and \<open>m\<close> of \<open>MEM_SIZE\<close> hold no double quote
  and neither start nor end with a single quote, then after a successful \<open>save\<close>, \<open>load\<close>
  from the same config file succeeds and its config maps \<open>CPU_CORES\<close> to \<open>c\<close> and
  \<open>MEM_SIZE\<close> to \<open>m\<close>.
\<close>

theorem save_load_config:
  assumes "clean_session s" and "snd (save s fs) = None" and "config_file s' = config_file s"
      and "map_of (config s) ''CPU_CORES'' = Some c" and "map_of (config s) ''MEM_SIZE'' = Some m"
      and "clean_value c" and "clean_value m"
  shows "fst (load (fst (save s fs)) s') = True \<and>
         map_of (config (snd (load (fst (save s fs)) s'))) ''CPU_CORES'' = Some c \<and>
         map_of (config (snd (load (fst (save s fs)) s'))) ''MEM_SIZE'' = Some m"
proof -
  have f: "fst (save s fs) (config_file s') = Some (File (config_text s))"
    using assms(2,3) by (simp add: save_ok)
  have c: "(''CPU_CORES'', c) \<in> set (config s)" and m: "(''MEM_SIZE'', m) \<in> set (config s)"
    using assms(4,5) by (auto dest: map_of_SomeD)
  have "map_of (updates (config_assigns (file_entries (config_text s))) []) ''CPU_CORES'' = Some (unquote c)"
    by (rule saved_config_lookup[OF assms(1) c]) simp_all
  moreover have "map_of (updates (config_assigns (file_entries (config_text s))) []) ''MEM_SIZE'' = Some (unquote m)"
    by (rule saved_config_lookup[OF assms(1) m]) simp_all
  ultimately show ?thesis
    by (simp add: load_file[of "fst (save s fs)" s' "config_text s", OF f] unquote_clean assms(6,7))
qed

text \<open>
  The claim as stated fails: the value \<open>'4'\<close> (with its single quotes) holds no double
  quote, is written as \<open>CPU_CORES="'4'"\<close>, and is read back as \<open>4\<close>, because the reader
  strips single quotes after the double quotes.
\<close>

theorem save_load_config_counterexample:
  "DQ \<notin> set ([SQ] @ ''4'' @ [SQ]) \<and> DQ \<notin> set ''8G'' \<and>
   map_of (config s_quoted) ''CPU_CORES'' = Some ([SQ] @ ''4'' @ [SQ]) \<and>
   map_of (config s_quoted) ''MEM_SIZE'' = Some ''8G'' \<and>
   snd (save s_quoted Map.empty) = None \<and>
   fst (load (fst (save s_quoted Map.empty)) (Session_init ''/r'' ''vm'')) = True \<and>
   map_of (config (snd (load (fst (save s_quoted Map.empty)) (Session_init ''/r'' ''vm'')))) ''CPU_CORES''
     = Some ''4'' \<and>
   map_of (config (snd (load (fst (save s_quoted Map.empty)) (Session_init ''/r'' ''vm'')))) ''CPU_CORES''
     \<noteq> Some ([SQ] @ ''4'' @ [SQ])"
  by code_simp

theorem save_load_config_witness:
  "clean_session s_plain \<and> snd (save s_plain Map.empty) = None \<and>
   config_file (Session_init ''/r'' ''vm'') = config_file s_plain \<and>
   map_of (config s_plain) ''CPU_CORES'' = Some ''4'' \<and>
   map_of (config s_plain) ''MEM_SIZE'' = Some ''8G'' \<and>
   clean_value ''4'' \<and> clean_value ''8G'' \<and>
   fst (load (fst (save s_plain Map.empty)) (Session_init ''/r'' ''vm'')) = True \<and>
   map_of (config (snd (load (fst (save s_plain Map.empty)) (Session_init ''/r'' ''vm'')))) ''CPU_CORES''
     = Some ''4'' \<and>
   map_of (config (snd (load (fst (save s_plain Map.empty)) (Session_init ''/r'' ''vm'')))) ''MEM_SIZE''
     = Some ''8G''"
proof -
  have h1: "clean_session s_plain" by code_simp
  have h2: "snd (save s_plain Map.empty) = None" by code_simp
  have h3: "config_file (Session_init ''/r'' ''vm'') = config_file s_plain" by code_simp
  have h4: "map_of (config s_plain) ''CPU_CORES'' = Some ''4''" by code_simp
  have h5: "map_of (config s_plain) ''MEM_SIZE'' = Some ''8G''" by code_simp
  have h6: "clean_value ''4''" and h7: "clean_value ''8G''" by code_simp+
  from save_load_config [OF h1 h2 h3 h4 h5 h6 h7] h1 h2 h3 h4 h5 h6 h7
  show ?thesis by simp
qed

section \<open>Backing-chain operations\<close>

text \<open>
  Claim C8. When the disk file is missing, or \<open>qemu-img info\<close> fails or prints something
  unparseable, \<open>get_disk_info\<close> returns \<open>None\<close>; \<open>snapshot_ops\<close> reads \<open>None\<close> as the state
  \<open>Unknown\<close>, which is not \<open>Base\<close>; and in state \<open>Unknown\<close> \<open>snapshot_ops\<close> returns at
  once, whatever is typed: the file system and the session stay as they were.
\<close>

theorem unknown_refuses:
  "(\<not> path_exists fs (path_join (disk_dir s) d) \<or>
    qemu_img_info e (path_join (disk_dir s) d) = ProcessFailed \<or>
    qemu_img_info e (path_join (disk_dir s) d) = Unparseable
    \<longrightarrow> get_disk_info e fs s d = None) \<and>
   disk_state_of None = Unknown \<and> Unknown \<noteq> Base \<and>
   (disk_state_of info = Unknown
    \<longrightarrow> snapshot_ops e op_typed confirm_typed idx d info (fs, s) = ([(fs, s)], None))"
  by (auto simp: get_disk_info_def Let_def snapshot_ops_def disk_state_of_def)

theorem unknown_refuses_witness:
  "\<not> path_exists fs_snap (path_join (disk_dir s_snap) ''gone.qcow2'') \<and>
   get_disk_info env_ok fs_snap s_snap ''gone.qcow2'' = None \<and>
   disk_state_of (get_disk_info env_ok fs_snap s_snap ''gone.qcow2'') = Unknown \<and>
   snapshot_ops env_ok ''d'' ''y'' 0 ''gone.qcow2'' (get_disk_info env_ok fs_snap s_snap ''gone.qcow2'')
     (fs_snap, s_snap) = ([(fs_snap, s_snap)], None)"
proof -
  have h: "\<not> path_exists fs_snap (path_join (disk_dir s_snap) ''gone.qcow2'')" by code_simp
  have u: "get_disk_info env_ok fs_snap s_snap ''gone.qcow2'' = None"
    using unknown_refuses [of fs_snap s_snap "''gone.qcow2''" env_ok] h by blast
  have k: "disk_state_of (get_disk_info env_ok fs_snap s_snap ''gone.qcow2'') = Unknown"
    unfolding u using unknown_refuses by blast
  from unknown_refuses [of fs_snap s_snap "''gone.qcow2''" env_ok
      "get_disk_info env_ok fs_snap s_snap ''gone.qcow2''" "''d''" "''y''" 0] h u k
  show ?thesis by blast
qed

text \<open>
  Claim C5. When the disk is a base image, the operation chosen is \<open>c\<close> (create overlay),
  and a file already exists at the overlay name, which is the disk name without its
  extension followed by \<open>.snap.qcow2\<close>, the operation does nothing: no step is taken, the
  disk list and the file system are unchanged.
\<close>

theorem create_overlay_name_taken:
  "disk_state_of info = Base \<and> py_lower (py_strip op_typed) = ''c'' \<and>
   path_exists fs (path_join (disk_dir s) (fst (splitext disk_name) @ ''.snap.qcow2''))
   \<longrightarrow> snapshot_ops e op_typed confirm_typed idx disk_name info (fs, s) = ([(fs, s)], None)"
  by (simp add: snapshot_ops_def op_create_overlay_def overlay_name_of_def)

theorem create_overlay_name_taken_witness:
  "disk_state_of (get_disk_info env_ok fs_snap s_base ''sys.qcow2'') = Base \<and>
   py_lower (py_strip '' C '') = ''c'' \<and>
   fst (splitext ''sys.qcow2'') @ ''.snap.qcow2'' = ''sys.snap.qcow2'' \<and>
   path_exists fs_snap (path_join (disk_dir s_base) (fst (splitext ''sys.qcow2'') @ ''.snap.qcow2'')) \<and>
   snapshot_ops env_ok '' C '' [] 0 ''sys.qcow2'' (get_disk_info env_ok fs_snap s_base ''sys.qcow2'')
     (fs_snap, s_base) = ([(fs_snap, s_base)], None)"
proof -
  have a: "disk_state_of (get_disk_info env_ok fs_snap s_base ''sys.qcow2'') = Base" by code_simp
  have b: "py_lower (py_strip '' C '') = ''c''" by code_simp
  have n: "fst (splitext ''sys.qcow2'') @ ''.snap.qcow2'' = ''sys.snap.qcow2''" by code_simp
  have c: "path_exists fs_snap (path_join (disk_dir s_base) (fst (splitext ''sys.qcow2'') @ ''.snap.qcow2''))"
    by code_simp
  from create_overlay_name_taken [of "get_disk_info env_ok fs_snap s_base ''sys.qcow2''" "'' C ''"
      fs_snap s_base "''sys.qcow2''" env_ok "[]" 0] a b n c
  show ?thesis by blast
qed

section \<open>Importing a resource\<close>

text \<open>
  Claim C6, as amended. For the disk import and the ISO import alike, the file name is
  appended to the resource list exactly when the typed path is not empty, the source
  exists, the name is not empty, and either a file of that name is already in the resource
  directory and the user does not confirm overwriting (then nothing is copied), or the
  copy returns without an exception. On an empty path, a missing source or a failed copy
  the list is unchanged.
\<close>

theorem import_appends:
  "(let p = get_input path_typed [];
        src = expand_path e p;
        filename = basename src;
        dest = path_join (disk_dir s) filename
    in disks (snd (fst (manage_disk_import e path_typed confirm_typed (fs, s)))) =
         (if p \<noteq> [] \<and> path_exists fs src \<and> filename \<noteq> [] \<and>
             (if path_exists fs dest \<and> \<not> confirmed confirm_typed then True
              else snd (copy2 e src dest fs) = None)
          then disks s @ [filename] else disks s))
   \<and>
   (let p = get_input path_typed [];
        src = expand_path e p;
        filename = basename src;
        dest = path_join (iso_dir s) filename
    in isos (snd (fst (manage_cdrom_import e path_typed confirm_typed (fs, s)))) =
         (if p \<noteq> [] \<and> path_exists fs src \<and> filename \<noteq> [] \<and>
             (if path_exists fs dest \<and> \<not> confirmed confirm_typed then True
              else snd (copy2 e src dest fs) = None)
          then isos s @ [filename] else isos s))"
  by (auto simp: manage_disk_import_def manage_cdrom_import_def import_resource_def Let_def
      confirmed_def split: prod.splits option.splits)

text \<open>
  The claim as stated fails on the path where no copy is made: \<open>a.qcow2\<close> is already in
  the disk directory, the user answers \<open>n\<close>, \<open>import_resource\<close> returns the name without
  copying (the file in the directory keeps its old content), and the name is appended.
\<close>

theorem import_appends_counterexample:
  "fst (import_resource env_ok ''n'' ''/tmp/a.qcow2'' (disk_dir s_base) fs_import) = Some ''a.qcow2'' \<and>
   snd (import_resource env_ok ''n'' ''/tmp/a.qcow2'' (disk_dir s_base) fs_import) ''/r/vm/disks/a.qcow2''
     = Some (File ''old'') \<and>
   fs_import ''/r/vm/disks/a.qcow2'' = Some (File ''old'') \<and>
   fs_import ''/tmp/a.qcow2'' = Some (File ''new'') \<and>
   disks s_base = [''sys.qcow2''] \<and>
   disks (snd (fst (manage_disk_import env_ok ''/tmp/a.qcow2'' ''n'' (fs_import, s_base))))
     = [''sys.qcow2'', ''a.qcow2''] \<and>
   fst (fst (manage_disk_import env_ok ''/tmp/a.qcow2'' ''n'' (fs_import, s_base))) ''/r/vm/disks/a.qcow2''
     = Some (File ''old'')"
  by code_simp

theorem import_appends_witness:
  "disks (snd (fst (manage_disk_import env_ok ''/tmp/b.qcow2'' [] (fs_import, s_base))))
     = [''sys.qcow2'', ''b.qcow2''] \<and>
   fst (fst (manage_disk_import env_ok ''/tmp/b.qcow2'' [] (fs_import, s_base))) ''/r/vm/disks/b.qcow2''
     = Some (File ''fresh'') \<and>
   disks (snd (fst (manage_disk_import (env_ok\<lparr>copy_ok := False\<rparr>) ''/tmp/b.qcow2'' [] (fs_import, s_base))))
     = [''sys.qcow2''] \<and>
   isos (snd (fst (manage_cdrom_import env_ok ''/tmp/missing.iso'' [] (fs_import, s_base)))) = []"
  using import_appends [of "''/tmp/b.qcow2''" env_ok s_base "[]" fs_import]
        import_appends [of "''/tmp/b.qcow2''" "env_ok\<lparr>copy_ok := False\<rparr>" s_base "[]" fs_import]
        import_appends [of "''/tmp/missing.iso''" env_ok s_base "[]" fs_import]
  by code_simp

section \<open>Backing-chain operations and the persisted config\<close>



lemma seq_ops_preserves:
  assumes "\<And>f x. f \<in> set ops \<Longrightarrow> P x \<Longrightarrow> P (fst (f x))" and "P fs"
  shows "P (fst (seq_ops ops fs))"
  using assms
proof (induction ops arbitrary: fs)
  case Nil
  then show ?case by simp
next
  case (Cons f ops)
  obtain fs1 r where f: "f fs = (fs1, r)" by (cases "f fs")
  have p1: "P fs1" using Cons.prems(1)[of f fs] Cons.prems(2) f by simp
  show ?case
  proof (cases r)
    case None
    then show ?thesis using Cons.IH[of fs1] Cons.prems(1) p1 f by simp
  next
    case (Some e)
    then show ?thesis using p1 f by simp
  qed
qed



lemma save_cases:
  "save s fs =
     (case create_structure s fs of
        (fs1, Some e) \<Rightarrow> (fs1, Some e)
      | (fs1, None) \<Rightarrow> write_config s fs1)"
  by (auto simp: save_def split: prod.splits option.splits)







lemma makedirs_keeps: "fs p \<noteq> None \<Longrightarrow> fst (makedirs q fs) p = fs p"
  by (auto simp: makedirs_def split: option.splits node.splits)

lemma create_structure_keeps:
  assumes "fs p \<noteq> None"
  shows "fst (create_structure s fs) p = fs p"
  unfolding create_structure_def
  by (rule seq_ops_preserves[where P = "\<lambda>x. x p = fs p"]) (use assms in \<open>auto simp: makedirs_keeps\<close>)

lemma save_keeps:
  assumes "fs p \<noteq> None" and "p \<noteq> config_file s"
  shows "fst (save s fs) p = fs p"
  using create_structure_keeps[of fs p s] assms
  by (auto simp: save_cases write_config_def split: prod.splits option.splits)

lemma os_remove_gone:
  "fs p = Some (File c) \<Longrightarrow> remove_ok e \<Longrightarrow> fst (os_remove e p fs) p = None"
  by (simp add: os_remove_def)

lemma os_remove_other: "q \<noteq> p \<Longrightarrow> fst (os_remove e p fs) q = fs q"
  by (auto simp: os_remove_def split: option.splits node.splits)

lemma os_remove_failed: "\<not> remove_ok e \<Longrightarrow> fst (os_remove e p fs) = fs"
  by (auto simp: os_remove_def split: option.splits node.splits)

text \<open>The steps of a confirmed discard whose backing file is present and whose \<open>save\<close>
  returns.\<close>

lemma discard_steps:
  assumes "path_exists fs (path_join (disk_dir s) backing)" and "idx < length (disks s)"
      and "snd (save (s\<lparr>disks := (disks s)[idx := backing]\<rparr>) fs) = None"
  shows "op_discard e idx disk_name backing (fs, s) =
           ([(fs, s), (fs, s\<lparr>disks := (disks s)[idx := backing]\<rparr>),
             (fst (save (s\<lparr>disks := (disks s)[idx := backing]\<rparr>) fs),
              s\<lparr>disks := (disks s)[idx := backing]\<rparr>),
             (fst (os_remove e (path_join (disk_dir s) disk_name)
                    (fst (save (s\<lparr>disks := (disks s)[idx := backing]\<rparr>) fs))),
              s\<lparr>disks := (disks s)[idx := backing]\<rparr>)], None)"
  using assms by (auto simp: op_discard_def Let_def split: prod.splits option.splits)



text \<open>
  Claim C4. For a confirmed discard on an overlay disk: when the backing file is absent
  from the disk directory, nothing happens (overlay file and disk list unchanged). When
  it is present, the entry \<open>idx\<close> of the disk list is set to the backing name, then \<open>save\<close>
  runs, and only then is the overlay file removed; if \<open>save\<close> raises, the exception escapes
  and no file is removed. When \<open>save\<close> returns and the overlay is a regular file other than
  the config file: in the world after \<open>save\<close> the config file holds the new list and the
  overlay file is still there; in the world after the removal the config file still holds
  the new list, and the overlay file is gone if \<open>os.remove\<close> succeeded (nothing changed if
  it failed).
\<close>

theorem discard_order:
  assumes "disk_state_of info = Overlay backing"
      and "py_lower (py_strip op_typed) = ''d''" and "confirmed confirm_typed"
  shows "(\<not> path_exists fs (path_join (disk_dir s) backing)
          \<longrightarrow> snapshot_ops e op_typed confirm_typed idx disk_name info (fs, s) = ([(fs, s)], None))
       \<and> (path_exists fs (path_join (disk_dir s) backing) \<and> idx < length (disks s)
          \<longrightarrow> (let s1 = s\<lparr>disks := (disks s)[idx := backing]\<rparr>
               in case save s1 fs of
                    (fs2, None) \<Rightarrow>
                      fs2 (config_file s) = Some (File (config_text s1)) \<and>
                      snapshot_ops e op_typed confirm_typed idx disk_name info (fs, s)
                        = ([(fs, s), (fs, s1), (fs2, s1),
                            (fst (os_remove e (path_join (disk_dir s) disk_name) fs2), s1)], None)
                  | (fs2, Some err) \<Rightarrow>
                      snapshot_ops e op_typed confirm_typed idx disk_name info (fs, s)
                        = ([(fs, s), (fs, s1), (fs2, s1)], Some err)))
       \<and> (path_exists fs (path_join (disk_dir s) backing) \<and> idx < length (disks s) \<and>
          snd (save (s\<lparr>disks := (disks s)[idx := backing]\<rparr>) fs) = None \<and>
          fs (path_join (disk_dir s) disk_name) = Some (File c) \<and>
          path_join (disk_dir s) disk_name \<noteq> config_file s
          \<longrightarrow> (let s1 = s\<lparr>disks := (disks s)[idx := backing]\<rparr>;
                   fs2 = fst (save s1 fs);
                   fs3 = fst (os_remove e (path_join (disk_dir s) disk_name) fs2)
               in snapshot_ops e op_typed confirm_typed idx disk_name info (fs, s)
                    = ([(fs, s), (fs, s1), (fs2, s1), (fs3, s1)], None) \<and>
                  disks s1 ! idx = backing \<and>
                  fs2 (config_file s) = Some (File (config_text s1)) \<and>
                  fs2 (path_join (disk_dir s) disk_name) = Some (File c) \<and>
                  fs3 (config_file s) = Some (File (config_text s1)) \<and>
                  (if remove_ok e then fs3 (path_join (disk_dir s) disk_name) = None
                   else fs3 = fs2)))"
proof (intro conjI impI)
  assume "\<not> path_exists fs (path_join (disk_dir s) backing)"
  then show "snapshot_ops e op_typed confirm_typed idx disk_name info (fs, s) = ([(fs, s)], None)"
    using assms by (simp add: snapshot_ops_def op_discard_def)
next
  assume h: "path_exists fs (path_join (disk_dir s) backing) \<and> idx < length (disks s)"
  let ?s1 = "s\<lparr>disks := (disks s)[idx := backing]\<rparr>"
  obtain fs2 r where sv: "save ?s1 fs = (fs2, r)" by (cases "save ?s1 fs")
  have run: "snapshot_ops e op_typed confirm_typed idx disk_name info (fs, s)
             = op_discard e idx disk_name backing (fs, s)"
    using assms by (simp add: snapshot_ops_def)
  show "let s1 = ?s1
        in case save s1 fs of
             (fs2, None) \<Rightarrow>
               fs2 (config_file s) = Some (File (config_text s1)) \<and>
               snapshot_ops e op_typed confirm_typed idx disk_name info (fs, s)
                 = ([(fs, s), (fs, s1), (fs2, s1),
                     (fst (os_remove e (path_join (disk_dir s) disk_name) fs2), s1)], None)
           | (fs2, Some err) \<Rightarrow>
               snapshot_ops e op_typed confirm_typed idx disk_name info (fs, s)
                 = ([(fs, s), (fs, s1), (fs2, s1)], Some err)"
  proof (cases r)
    case None
    have "snd (save ?s1 fs) = None" using sv None by simp
    from save_ok[OF this] have "fs2 (config_file s) = Some (File (config_text ?s1))"
      using sv by simp
    then show ?thesis
      using h sv None unfolding run
      by (simp add: op_discard_def Let_def split: prod.splits)
  next
    case (Some err)
    then show ?thesis
      using h sv unfolding run by (simp add: op_discard_def Let_def)
  qed
next
  let ?s1 = "s\<lparr>disks := (disks s)[idx := backing]\<rparr>"
  let ?dp = "path_join (disk_dir s) disk_name"
  assume h: "path_exists fs (path_join (disk_dir s) backing) \<and> idx < length (disks s) \<and>
          snd (save ?s1 fs) = None \<and> fs ?dp = Some (File c) \<and> ?dp \<noteq> config_file s"
  have run: "snapshot_ops e op_typed confirm_typed idx disk_name info (fs, s)
             = op_discard e idx disk_name backing (fs, s)"
    using assms by (simp add: snapshot_ops_def)
  have sv: "snd (save ?s1 fs) = None" and cf: "config_file ?s1 = config_file s"
    using h by simp_all
  have ex: "fs ?dp \<noteq> None" and ne: "?dp \<noteq> config_file s" and fl: "fs ?dp = Some (File c)"
    using h by simp_all
  have 1: "fst (save ?s1 fs) (config_file s) = Some (File (config_text ?s1))"
    using save_ok[OF sv] by simp
  have 2: "fst (save ?s1 fs) ?dp = Some (File c)"
    using save_keeps[of fs ?dp ?s1] ex ne fl by simp
  have 3: "fst (os_remove e ?dp (fst (save ?s1 fs))) (config_file s) = Some (File (config_text ?s1))"
    using 1 os_remove_other[of "config_file s" ?dp e "fst (save ?s1 fs)"] ne by simp
  have 4: "remove_ok e \<Longrightarrow> fst (os_remove e ?dp (fst (save ?s1 fs))) ?dp = None"
    using 2 os_remove_gone[of "fst (save ?s1 fs)" ?dp c e] by simp
  have 5: "\<not> remove_ok e \<Longrightarrow> fst (os_remove e ?dp (fst (save ?s1 fs))) = fst (save ?s1 fs)"
    by (rule os_remove_failed)
  have 6: "disks ?s1 ! idx = backing" using h by simp
  show "let s1 = ?s1; fs2 = fst (save s1 fs); fs3 = fst (os_remove e ?dp fs2)
        in snapshot_ops e op_typed confirm_typed idx disk_name info (fs, s)
             = ([(fs, s), (fs, s1), (fs2, s1), (fs3, s1)], None) \<and>
           disks s1 ! idx = backing \<and>
           fs2 (config_file s) = Some (File (config_text s1)) \<and>
           fs2 ?dp = Some (File c) \<and>
           fs3 (config_file s) = Some (File (config_text s1)) \<and>
           (if remove_ok e then fs3 ?dp = None else fs3 = fs2)"
    unfolding run Let_def
    using discard_steps[of fs s backing idx e disk_name] h 1 2 3 4 5 6 by simp
qed

theorem discard_order_witness:
  "disk_state_of (get_disk_info env_ok fs_snap s_snap ''sys.snap.qcow2'') = Overlay ''sys.qcow2'' \<and>
   py_lower (py_strip ''D'') = ''d'' \<and> confirmed ''y'' \<and>
   path_exists fs_snap (path_join (disk_dir s_snap) ''sys.qcow2'') \<and> 0 < length (disks s_snap) \<and>
   snd (save (s_snap\<lparr>disks := [''sys.qcow2'']\<rparr>) fs_snap) = None \<and>
   fs_snap ''/r/vm/disks/sys.snap.qcow2'' = Some (File []) \<and>
   ''/r/vm/disks/sys.snap.qcow2'' \<noteq> config_file s_snap \<and> remove_ok env_ok \<and>
   snapshot_ops env_ok ''D'' ''y'' 0 ''sys.snap.qcow2'' (get_disk_info env_ok fs_snap s_snap ''sys.snap.qcow2'')
       (fs_snap, s_snap)
     = ([(fs_snap, s_snap), (fs_snap, s_snap\<lparr>disks := [''sys.qcow2'']\<rparr>),
         (fst (save (s_snap\<lparr>disks := [''sys.qcow2'']\<rparr>) fs_snap), s_snap\<lparr>disks := [''sys.qcow2'']\<rparr>),
         (fst (os_remove env_ok ''/r/vm/disks/sys.snap.qcow2''
                (fst (save (s_snap\<lparr>disks := [''sys.qcow2'']\<rparr>) fs_snap))),
          s_snap\<lparr>disks := [''sys.qcow2'']\<rparr>)], None) \<and>
   fst (save (s_snap\<lparr>disks := [''sys.qcow2'']\<rparr>) fs_snap) (config_file s_snap)
     = Some (File (config_text (s_snap\<lparr>disks := [''sys.qcow2'']\<rparr>))) \<and>
   fst (save (s_snap\<lparr>disks := [''sys.qcow2'']\<rparr>) fs_snap) ''/r/vm/disks/sys.snap.qcow2''
     = Some (File []) \<and>
   fst (os_remove env_ok ''/r/vm/disks/sys.snap.qcow2''
          (fst (save (s_snap\<lparr>disks := [''sys.qcow2'']\<rparr>) fs_snap))) ''/r/vm/disks/sys.snap.qcow2''
     = None \<and>
   fst (os_remove env_ok ''/r/vm/disks/sys.snap.qcow2''
          (fst (save (s_snap\<lparr>disks := [''sys.qcow2'']\<rparr>) fs_snap))) (config_file s_snap)
     = Some (File (config_text (s_snap\<lparr>disks := [''sys.qcow2'']\<rparr>))) \<and>
   fst (last (fst (snapshot_ops env_ok ''D'' ''y'' 0 ''sys.snap.qcow2''
          (get_disk_info env_ok fs_snap s_snap ''sys.snap.qcow2'') (fs_snap, s_snap))))
       ''/r/vm/disks/sys.snap.qcow2'' = None \<and>
   disks (snd (load (fst (last (fst (snapshot_ops env_ok ''D'' ''y'' 0 ''sys.snap.qcow2''
          (get_disk_info env_ok fs_snap s_snap ''sys.snap.qcow2'') (fs_snap, s_snap))))) s_snap))
     = [''sys.qcow2'']"
proof -
  let ?info = "get_disk_info env_ok fs_snap s_snap ''sys.snap.qcow2''"
  let ?s1 = "s_snap\<lparr>disks := [''sys.qcow2'']\<rparr>"
  have a: "disk_state_of ?info = Overlay ''sys.qcow2''" by code_simp
  have b: "py_lower (py_strip ''D'') = ''d''" by code_simp
  have c: "confirmed ''y''" by code_simp
  have d: "path_exists fs_snap (path_join (disk_dir s_snap) ''sys.qcow2'') \<and> 0 < length (disks s_snap)"
    by code_simp
  have s1: "s_snap\<lparr>disks := (disks s_snap)[0 := ''sys.qcow2'']\<rparr> = ?s1" by (simp add: s_snap_def)
  have p: "path_join (disk_dir s_snap) ''sys.snap.qcow2'' = ''/r/vm/disks/sys.snap.qcow2''" by code_simp
  have sv: "snd (save ?s1 fs_snap) = None" by code_simp
  have f: "fs_snap ''/r/vm/disks/sys.snap.qcow2'' = Some (File [])" by code_simp
  have n: "''/r/vm/disks/sys.snap.qcow2'' \<noteq> config_file s_snap" by code_simp
  have r: "remove_ok env_ok" by code_simp
  have l1: "fst (last (fst (snapshot_ops env_ok ''D'' ''y'' 0 ''sys.snap.qcow2'' ?info (fs_snap, s_snap))))
       ''/r/vm/disks/sys.snap.qcow2'' = None" by code_simp
  have l2: "disks (snd (load (fst (last (fst (snapshot_ops env_ok ''D'' ''y'' 0 ''sys.snap.qcow2'' ?info
       (fs_snap, s_snap))))) s_snap)) = [''sys.qcow2'']" by code_simp
  from discard_order [where fs=fs_snap and s=s_snap and idx=0 and e=env_ok
      and disk_name="''sys.snap.qcow2''" and c="[]", OF a b c]
  have "snapshot_ops env_ok ''D'' ''y'' 0 ''sys.snap.qcow2'' ?info (fs_snap, s_snap)
     = ([(fs_snap, s_snap), (fs_snap, ?s1), (fst (save ?s1 fs_snap), ?s1),
         (fst (os_remove env_ok ''/r/vm/disks/sys.snap.qcow2'' (fst (save ?s1 fs_snap))), ?s1)], None) \<and>
     fst (save ?s1 fs_snap) (config_file s_snap) = Some (File (config_text ?s1)) \<and>
     fst (save ?s1 fs_snap) ''/r/vm/disks/sys.snap.qcow2'' = Some (File []) \<and>
     fst (os_remove env_ok ''/r/vm/disks/sys.snap.qcow2'' (fst (save ?s1 fs_snap)))
       ''/r/vm/disks/sys.snap.qcow2'' = None \<and>
     fst (os_remove env_ok ''/r/vm/disks/sys.snap.qcow2'' (fst (save ?s1 fs_snap))) (config_file s_snap)
       = Some (File (config_text ?s1))"
    using d sv f n r by (simp add: Let_def s1 p)
  with a b c d sv f n r l1 l2 show ?thesis by simp
qed













end
